theory Spec2Isabelle
  imports Main
begin

section \<open>The product resource handler of benjerry-api\<close>

text \<open>
  The development embeds \<^verbatim>\<open>product/delivery/http/product_handler.go\<close>: the wire
  structures, the three mappers, the four handler closures, \<^verbatim>\<open>writeErrorMessage\<close> and
  \<^verbatim>\<open>getResponseStatus\<close>. The packages \<^verbatim>\<open>domain\<close> and \<^verbatim>\<open>common/validator\<close>
  are imported by the handler but are not among the embedded sources; what the handler
  uses of them is either a parameter of the model or a definition marked as modelled
  from the specification.
\<close>

subsection \<open>Go values\<close>

text \<open>
  A Go slice is either the nil slice or a (possibly empty) allocated sequence. Both have
  length 0 when empty, but \<^verbatim>\<open>encoding/json\<close> tells them apart. A pointer is an
  \<open>option\<close>: \<open>None\<close> is the nil pointer.
\<close>

datatype 'a slice = NilSlice | Slice "'a list"

fun elems :: "'a slice \<Rightarrow> 'a list" where
  "elems NilSlice = []"
| "elems (Slice xs) = xs"

definition len :: "'a slice \<Rightarrow> nat" where
  "len s = length (elems s)"

subsection \<open>Error values\<close>

text \<open>
  A value of Go's interface type \<^verbatim>\<open>error\<close> is observed by the handler in three ways
  only: by \<^verbatim>\<open>==\<close> against the sentinels of package \<^verbatim>\<open>domain\<close>
  (\<^verbatim>\<open>getResponseStatus\<close>), by the type assertion to
  \<^verbatim>\<open>*validatorLib.ValidationError\<close>, and through its \<^verbatim>\<open>Error()\<close> text. An error
  value is modelled by exactly these observations. The nil interface is \<open>None\<close>.
\<close>

text \<open>
  Modelled from the spec: the structure \<^verbatim>\<open>ValidationError\<close> of package
  \<^verbatim>\<open>common/validator\<close>, which is not among the sources. It stands for a validation
  failure and is represented by the human-readable reason that its \<^verbatim>\<open>Message()\<close>
  method returns.
\<close>

datatype validation_error = ValidationFailure (message: string)

text \<open>
  Modelled from the spec: the error sentinels of package \<^verbatim>\<open>domain\<close>
  (\<^verbatim>\<open>domain.ErrAuthFail\<close>, \<^verbatim>\<open>domain.ErrExpiredToken\<close>,
  \<^verbatim>\<open>domain.ErrBadParamInput\<close>, \<^verbatim>\<open>domain.ErrConflict\<close>,
  \<^verbatim>\<open>domain.ErrResourceNotFound\<close>), whose declarations are not among the sources.
  The specification calls them a closed set of distinct classifications compared by
  equality. \<open>ValidationError v\<close> is an error whose dynamic type is
  \<^verbatim>\<open>*validatorLib.ValidationError\<close>; \<open>Unrecognized\<close> is any other error value.
\<close>

datatype error_kind =
    ErrAuthFail
  | ErrExpiredToken
  | ErrBadParamInput
  | ErrConflict
  | ErrResourceNotFound
  | ValidationError validation_error
  | Unrecognized

text \<open>
  The text of a sentinel is fixed by its declaration, which is not available, so an error
  of any kind is admitted with any text.
\<close>

datatype error_value = GoError (kind: error_kind) (Error: string)

type_synonym error = "error_value option"

text \<open>\<^verbatim>\<open>err == sentinel\<close> on interface values; false for the nil interface.\<close>

definition errIs :: "error \<Rightarrow> error_kind \<Rightarrow> bool" where
  "errIs err k = (case err of None \<Rightarrow> False | Some e \<Rightarrow> kind e = k)"

subsection \<open>HTTP status codes used by the handler\<close>

abbreviation StatusOK :: int where "StatusOK \<equiv> 200"
abbreviation StatusCreated :: int where "StatusCreated \<equiv> 201"
abbreviation StatusBadRequest :: int where "StatusBadRequest \<equiv> 400"
abbreviation StatusUnauthorized :: int where "StatusUnauthorized \<equiv> 401"
abbreviation StatusNotFound :: int where "StatusNotFound \<equiv> 404"
abbreviation StatusInternalServerError :: int where "StatusInternalServerError \<equiv> 500"

subsection \<open>\<^verbatim>\<open>getResponseStatus\<close>\<close>

text \<open>
  The \<^verbatim>\<open>switch err\<close> of lines 242-257 tries its cases from top to bottom and takes the
  first whose value equals \<^verbatim>\<open>err\<close>.
\<close>

definition getResponseStatus :: "error \<Rightarrow> int" where
  "getResponseStatus err =
     (if err = None then StatusOK
      else if errIs err ErrAuthFail \<or> errIs err ErrExpiredToken then StatusUnauthorized
      else if errIs err ErrBadParamInput then StatusBadRequest
      else if errIs err ErrConflict then StatusOK
      else if errIs err ErrResourceNotFound then StatusNotFound
      else StatusInternalServerError)"

subsection \<open>The domain entity and the wire structures\<close>

text \<open>
  Modelled from the spec: the structure \<^verbatim>\<open>domain.Product\<close>, whose declaration is not
  among the sources. Its fields are those that the mappers of lines 62-119 read and
  write, with the types the assignments there force: strings, and for the two sequences
  a pointer to a slice of strings (section 3 of the specification).
\<close>

record product =
  ProductID :: string
  Name :: string
  ImageClosedURL :: string
  ImageOpenURL :: string
  Description :: string
  Story :: string
  SourcingValues :: "string slice option"
  Ingredients :: "string slice option"
  AllergyInfo :: string
  DietaryCertification :: string

text \<open>\<^verbatim>\<open>productResponseData\<close>, lines 19-30, and \<^verbatim>\<open>productSingleResponse\<close>, lines 15-17.\<close>

record productResponseData =
  res_ProductID :: string
  res_Name :: string
  res_ImageClosedURL :: string
  res_ImageOpenURL :: string
  res_Description :: string
  res_Story :: string
  res_SourcingValues :: "string slice option"
  res_Ingredients :: "string slice option"
  res_AllergyInfo :: string
  res_DietaryCertification :: string

record productSingleResponse =
  Data :: productResponseData

text \<open>\<^verbatim>\<open>messageError\<close>, lines 33-35.\<close>

record messageError =
  err_Message :: string

text \<open>\<^verbatim>\<open>productCreateRequest\<close>, lines 37-48.\<close>

record productCreateRequest =
  cre_ProductID :: string
  cre_Name :: string
  cre_ImageClosedURL :: string
  cre_ImageOpenURL :: string
  cre_Description :: string
  cre_Story :: string
  cre_SourcingValues :: "string slice option"
  cre_Ingredients :: "string slice option"
  cre_AllergyInfo :: string
  cre_DietaryCertification :: string

text \<open>\<^verbatim>\<open>productUpdateRequest\<close>, lines 50-60: no identity field.\<close>

record productUpdateRequest =
  upd_Name :: string
  upd_ImageClosedURL :: string
  upd_ImageOpenURL :: string
  upd_Description :: string
  upd_Story :: string
  upd_SourcingValues :: "string slice option"
  upd_Ingredients :: "string slice option"
  upd_AllergyInfo :: string
  upd_DietaryCertification :: string

text \<open>
  The zero values that \<^verbatim>\<open>var productCreate productCreateRequest\<close> (line 164) and
  \<^verbatim>\<open>var productUpdate productUpdateRequest\<close> (line 192) declare: empty strings and nil
  pointers.
\<close>

definition zeroCreateRequest :: productCreateRequest where
  "zeroCreateRequest =
     \<lparr>cre_ProductID = [], cre_Name = [], cre_ImageClosedURL = [], cre_ImageOpenURL = [],
      cre_Description = [], cre_Story = [], cre_SourcingValues = None,
      cre_Ingredients = None, cre_AllergyInfo = [], cre_DietaryCertification = []\<rparr>"

definition zeroUpdateRequest :: productUpdateRequest where
  "zeroUpdateRequest =
     \<lparr>upd_Name = [], upd_ImageClosedURL = [], upd_ImageOpenURL = [],
      upd_Description = [], upd_Story = [], upd_SourcingValues = None,
      upd_Ingredients = None, upd_AllergyInfo = [], upd_DietaryCertification = []\<rparr>"

subsection \<open>The mappers\<close>

text \<open>\<^verbatim>\<open>createToProduct\<close>, lines 62-75.\<close>

definition createToProduct :: "productCreateRequest \<Rightarrow> product" where
  "createToProduct requestData =
     \<lparr>ProductID = cre_ProductID requestData,
      Name = cre_Name requestData,
      ImageClosedURL = cre_ImageClosedURL requestData,
      ImageOpenURL = cre_ImageOpenURL requestData,
      Description = cre_Description requestData,
      Story = cre_Story requestData,
      SourcingValues = cre_SourcingValues requestData,
      Ingredients = cre_Ingredients requestData,
      AllergyInfo = cre_AllergyInfo requestData,
      DietaryCertification = cre_DietaryCertification requestData\<rparr>"

text \<open>
  \<^verbatim>\<open>updateToProduct\<close>, lines 77-89. The composite literal names no \<^verbatim>\<open>ProductID\<close>, so
  that field has its zero value, the empty string.
\<close>

definition updateToProduct :: "productUpdateRequest \<Rightarrow> product" where
  "updateToProduct requestData =
     \<lparr>ProductID = [],
      Name = upd_Name requestData,
      ImageClosedURL = upd_ImageClosedURL requestData,
      ImageOpenURL = upd_ImageOpenURL requestData,
      Description = upd_Description requestData,
      Story = upd_Story requestData,
      SourcingValues = upd_SourcingValues requestData,
      Ingredients = upd_Ingredients requestData,
      AllergyInfo = upd_AllergyInfo requestData,
      DietaryCertification = upd_DietaryCertification requestData\<rparr>"

text \<open>\<^verbatim>\<open>newSingleResponse\<close>, lines 105-119.\<close>

definition newSingleResponse :: "product \<Rightarrow> productSingleResponse" where
  "newSingleResponse product =
     (let productData =
        \<lparr>res_ProductID = ProductID product,
         res_Name = Name product,
         res_ImageClosedURL = ImageClosedURL product,
         res_ImageOpenURL = ImageOpenURL product,
         res_Description = Description product,
         res_Story = Story product,
         res_SourcingValues = SourcingValues product,
         res_Ingredients = Ingredients product,
         res_AllergyInfo = AllergyInfo product,
         res_DietaryCertification = DietaryCertification product\<rparr>
      in \<lparr>Data = productData\<rparr>)"

subsection \<open>JSON documents and the encoding of the response structures\<close>

text \<open>
  What \<^verbatim>\<open>json.NewEncoder(w).Encode(v)\<close> writes is modelled as a JSON document, before
  its rendering as text: an object is the list of its members in the order written. Only
  the forms that the response structures produce are needed.
\<close>

datatype json =
    JNull
  | JString string
  | JArray "json list"
  | JObject "(string \<times> json) list"

text \<open>
  \<^verbatim>\<open>encoding/json\<close> on a value of type \<^verbatim>\<open>[]string\<close>: the nil slice is written as
  \<^verbatim>\<open>null\<close>, any other slice as the array of its strings.
\<close>

fun encodeStrings :: "string slice \<Rightarrow> json" where
  "encodeStrings NilSlice = JNull"
| "encodeStrings (Slice xs) = JArray (map JString xs)"

text \<open>
  A field of type \<^verbatim>\<open>*[]string\<close> tagged \<^verbatim>\<open>omitempty\<close> (lines 26-27): a nil pointer
  is empty and the member is left out; otherwise the member is written with the
  encoding of the slice pointed to.
\<close>

fun omitemptyStrings :: "string \<Rightarrow> string slice option \<Rightarrow> (string \<times> json) list" where
  "omitemptyStrings key None = []"
| "omitemptyStrings key (Some s) = [(key, encodeStrings s)]"

text \<open>The members follow the order and the \<^verbatim>\<open>json\<close> tags of lines 20-29.\<close>

definition membersResponseData :: "productResponseData \<Rightarrow> (string \<times> json) list" where
  "membersResponseData d =
     [(''productId'', JString (res_ProductID d)),
      (''name'', JString (res_Name d)),
      (''image_closed'', JString (res_ImageClosedURL d)),
      (''image_open'', JString (res_ImageOpenURL d)),
      (''description'', JString (res_Description d)),
      (''story'', JString (res_Story d))]
     @ omitemptyStrings ''sourcing_values'' (res_SourcingValues d)
     @ omitemptyStrings ''ingredients'' (res_Ingredients d)
     @ [(''allergy_info'', JString (res_AllergyInfo d)),
        (''dietary_certifications'', JString (res_DietaryCertification d))]"

definition encodeSingleResponse :: "productSingleResponse \<Rightarrow> json" where
  "encodeSingleResponse r = JObject [(''product'', JObject (membersResponseData (Data r)))]"

definition encodeMessageError :: "messageError \<Rightarrow> json" where
  "encodeMessageError m = JObject [(''message'', JString (err_Message m))]"

subsection \<open>The response writer\<close>

text \<open>
  The part of \<^verbatim>\<open>http.ResponseWriter\<close> that the handler drives. \<open>header\<close> is the
  header map as a list of entries; \<open>headerCalls\<close> records, in order, the status code
  of every \<^verbatim>\<open>WriteHeader\<close>, explicit or implied by a first \<^verbatim>\<open>Write\<close> (the first entry
  is the status sent, any later one is a superfluous call); \<open>body\<close> records the
  documents written, one per \<^verbatim>\<open>Write\<close>.
\<close>

record response =
  header :: "(string \<times> string) list"
  headerCalls :: "int list"
  body :: "json list"

definition newResponse :: response where
  "newResponse = \<lparr>header = [], headerCalls = [], body = []\<rparr>"

text \<open>
  \<^verbatim>\<open>w.Header().Add(key, value)\<close> appends; \<^verbatim>\<open>w.Header().Set(key, value)\<close> replaces.
  Keys are kept as the handler writes them (\<^verbatim>\<open>net/http\<close> canonicalises them, so the
  \<^verbatim>\<open>content-type\<close> of line 217 names the same header as \<^verbatim>\<open>Content-Type\<close>).
\<close>

definition headerAdd :: "response \<Rightarrow> string \<Rightarrow> string \<Rightarrow> response" where
  "headerAdd w key v = w\<lparr>header := header w @ [(key, v)]\<rparr>"

definition headerSet :: "response \<Rightarrow> string \<Rightarrow> string \<Rightarrow> response" where
  "headerSet w key v = w\<lparr>header := filter (\<lambda>kv. fst kv \<noteq> key) (header w) @ [(key, v)]\<rparr>"

definition WriteHeader :: "response \<Rightarrow> int \<Rightarrow> response" where
  "WriteHeader w code = w\<lparr>headerCalls := headerCalls w @ [code]\<rparr>"

text \<open>A \<^verbatim>\<open>Write\<close> before any \<^verbatim>\<open>WriteHeader\<close> first calls \<^verbatim>\<open>WriteHeader(http.StatusOK)\<close>.\<close>

definition Write :: "response \<Rightarrow> json \<Rightarrow> response" where
  "Write w doc =
     (let w' = (if headerCalls w = [] then WriteHeader w StatusOK else w)
      in w'\<lparr>body := body w' @ [doc]\<rparr>)"

text \<open>The status of the response: the code of the first \<^verbatim>\<open>WriteHeader\<close>, if any.\<close>

definition statusCode :: "response \<Rightarrow> int option" where
  "statusCode w = (case headerCalls w of [] \<Rightarrow> None | code # _ \<Rightarrow> Some code)"

text \<open>\<^verbatim>\<open>writeErrorMessage\<close>, lines 234-238.\<close>

definition writeErrorMessage :: "response \<Rightarrow> string \<Rightarrow> int \<Rightarrow> response" where
  "writeErrorMessage writer errMsg httpStatus =
     Write (WriteHeader writer httpStatus) (encodeMessageError \<lparr>err_Message = errMsg\<rparr>)"

subsection \<open>The collaborators\<close>

text \<open>
  \<^verbatim>\<open>domain.ProductService\<close>, the interface behind \<^verbatim>\<open>handler.service\<close>: a parameter. A
  handler calls it at most once per request, so a method is the function from its
  arguments to what that one call returns; the request context, handed through unread,
  is left out.
\<close>

record productService =
  GetProduct :: "string \<Rightarrow> product \<times> error"
  CreateProduct :: "product \<Rightarrow> error"
  UpdateProduct :: "string \<Rightarrow> product \<Rightarrow> error"
  DeleteProduct :: "string \<Rightarrow> error"

text \<open>
  Package \<^verbatim>\<open>common/validator\<close>: a parameter. \<^verbatim>\<open>DecodeAndValidateJSON\<close> and
  \<^verbatim>\<open>ValidateJSON\<close> take the request body and a pointer to a zero-valued target; each is
  the function from the body to the error returned and the contents of the target after
  the call. \<open>nilMessage\<close> is what the method \<^verbatim>\<open>Message\<close> does on a nil
  \<^verbatim>\<open>*ValidationError\<close> receiver: \<open>None\<close> when it reads a field of its receiver, which
  is a nil pointer dereference and panics, \<open>Some m\<close> when it returns \<open>m\<close> without
  reading the receiver.
\<close>

record validatorLib =
  DecodeAndValidateJSON :: "string \<Rightarrow> error \<times> productCreateRequest"
  ValidateJSON :: "string \<Rightarrow> error \<times> productUpdateRequest"
  nilMessage :: "string option"

text \<open>
  The type assertion \<^verbatim>\<open>verr, _ := err.(*validatorLib.ValidationError)\<close> of lines 166 and
  194: with the second result discarded, \<^verbatim>\<open>verr\<close> is the nil pointer when the dynamic
  type of \<^verbatim>\<open>err\<close> is another one.
\<close>

definition assertValidationError :: "error_value \<Rightarrow> validation_error option" where
  "assertValidationError e = (case kind e of ValidationError v \<Rightarrow> Some v | _ \<Rightarrow> None)"

text \<open>\<^verbatim>\<open>verr.Message()\<close>: \<open>None\<close> is a panic.\<close>

definition Message :: "validatorLib \<Rightarrow> validation_error option \<Rightarrow> string option" where
  "Message V verr = (case verr of None \<Rightarrow> nilMessage V | Some v \<Rightarrow> Some (message v))"

subsection \<open>Requests and the outcome of a handler\<close>

text \<open>
  Of \<^verbatim>\<open>*http.Request\<close> the handlers read the route variables (\<^verbatim>\<open>mux.Vars(r)\<close>, a Go map)
  and the body. Indexing a Go map with a missing key gives the zero value.
\<close>

record request =
  vars :: "string \<rightharpoonup> string"
  rbody :: string

definition param :: "request \<Rightarrow> string \<Rightarrow> string" where
  "param r key = (case vars r key of None \<Rightarrow> [] | Some v \<Rightarrow> v)"

datatype service_call =
    GetProductCall string
  | CreateProductCall product
  | UpdateProductCall string product
  | DeleteProductCall string

text \<open>
  What a handler leaves behind: the response writer, the calls it made to the service,
  in order, and whether it ended in a panic instead of returning.
\<close>

record outcome =
  resp :: response
  calls :: "service_call list"
  panicked :: bool

subsection \<open>The handlers\<close>

text \<open>\<^verbatim>\<open>handleGetProduct\<close>, lines 138-156.\<close>

definition handleGetProduct :: "productService \<Rightarrow> response \<Rightarrow> request \<Rightarrow> outcome" where
  "handleGetProduct S w0 r =
     (let w = headerAdd w0 ''Content-Type'' ''application/json'';
          productID = param r ''product_id'';
          (product, err) = GetProduct S productID
      in case err of
           Some e \<Rightarrow>
             (let status = getResponseStatus err
              in \<lparr>resp = writeErrorMessage w (Error e) status,
                  calls = [GetProductCall productID], panicked = False\<rparr>)
         | None \<Rightarrow>
             (let response = newSingleResponse product
              in \<lparr>resp = Write w (encodeSingleResponse response),
                  calls = [GetProductCall productID], panicked = False\<rparr>))"

text \<open>\<^verbatim>\<open>handleCreateProduct\<close>, lines 160-181.\<close>

definition handleCreateProduct ::
  "validatorLib \<Rightarrow> productService \<Rightarrow> response \<Rightarrow> request \<Rightarrow> outcome" where
  "handleCreateProduct V S w0 r =
     (let w = headerSet w0 ''Content-Type'' ''application/json'';
          (derr, productCreate) = DecodeAndValidateJSON V (rbody r)
      in case derr of
           Some e \<Rightarrow>
             (let verr = assertValidationError e
              in case Message V verr of
                   None \<Rightarrow> \<lparr>resp = w, calls = [], panicked = True\<rparr>
                 | Some m \<Rightarrow>
                     \<lparr>resp = writeErrorMessage w m StatusBadRequest,
                      calls = [], panicked = False\<rparr>)
         | None \<Rightarrow>
             (let product = createToProduct productCreate;
                  err = CreateProduct S product
              in case err of
                   Some e \<Rightarrow>
                     (let status = getResponseStatus err
                      in \<lparr>resp = writeErrorMessage w (Error e) status,
                          calls = [CreateProductCall product], panicked = False\<rparr>)
                 | None \<Rightarrow>
                     \<lparr>resp = WriteHeader w StatusCreated,
                      calls = [CreateProductCall product], panicked = False\<rparr>))"

text \<open>\<^verbatim>\<open>handleUpdateProduct\<close>, lines 185-211.\<close>

definition handleUpdateProduct ::
  "validatorLib \<Rightarrow> productService \<Rightarrow> response \<Rightarrow> request \<Rightarrow> outcome" where
  "handleUpdateProduct V S w0 r =
     (let w = headerSet w0 ''Content-Type'' ''application/json'';
          productID = param r ''product_id'';
          (derr, productUpdate) = ValidateJSON V (rbody r)
      in case derr of
           Some e \<Rightarrow>
             (let verr = assertValidationError e
              in case Message V verr of
                   None \<Rightarrow> \<lparr>resp = w, calls = [], panicked = True\<rparr>
                 | Some m \<Rightarrow>
                     \<lparr>resp = writeErrorMessage w m StatusBadRequest,
                      calls = [], panicked = False\<rparr>)
         | None \<Rightarrow>
             (let product = (updateToProduct productUpdate)\<lparr>ProductID := productID\<rparr>;
                  err = UpdateProduct S productID product
              in case err of
                   Some e \<Rightarrow>
                     (let status = getResponseStatus err
                      in \<lparr>resp = writeErrorMessage w (Error e) status,
                          calls = [UpdateProductCall productID product], panicked = False\<rparr>)
                 | None \<Rightarrow>
                     \<lparr>resp = WriteHeader w StatusOK,
                      calls = [UpdateProductCall productID product], panicked = False\<rparr>))"

text \<open>\<^verbatim>\<open>handleDeleteProduct\<close>, lines 215-231.\<close>

definition handleDeleteProduct :: "productService \<Rightarrow> response \<Rightarrow> request \<Rightarrow> outcome" where
  "handleDeleteProduct S w0 r =
     (let w = headerSet w0 ''content-type'' ''application/json'';
          productID = param r ''product_id'';
          err = DeleteProduct S productID
      in case err of
           Some e \<Rightarrow>
             (let status = getResponseStatus err
              in \<lparr>resp = writeErrorMessage w (Error e) status,
                  calls = [DeleteProductCall productID], panicked = False\<rparr>)
         | None \<Rightarrow>
             \<lparr>resp = WriteHeader w StatusOK,
              calls = [DeleteProductCall productID], panicked = False\<rparr>)"

subsection \<open>Decoding an update body\<close>

text \<open>
  Modelled from the spec: the decoding step of \<^verbatim>\<open>validatorLib.ValidateJSON\<close>, which is
  not among the sources. An \<open>updatePatch\<close> is what a well-formed update body carries
  for each member named by the \<^verbatim>\<open>json\<close> tags of lines 51-59: \<open>None\<close> when the key is
  absent, the string or the array of strings otherwise. Decoding starts from the
  zero-valued target of line 192, overwrites the field of every key that is present and
  leaves the others as they are; an array is decoded to an allocated slice.
\<close>

record updatePatch =
  pat_Name :: "string option"
  pat_ImageClosedURL :: "string option"
  pat_ImageOpenURL :: "string option"
  pat_Description :: "string option"
  pat_Story :: "string option"
  pat_SourcingValues :: "string list option"
  pat_Ingredients :: "string list option"
  pat_AllergyInfo :: "string option"
  pat_DietaryCertification :: "string option"

definition decodeString :: "string \<Rightarrow> string option \<Rightarrow> string" where
  "decodeString old member = (case member of None \<Rightarrow> old | Some s \<Rightarrow> s)"

definition decodeStrings ::
  "string slice option \<Rightarrow> string list option \<Rightarrow> string slice option" where
  "decodeStrings old member = (case member of None \<Rightarrow> old | Some xs \<Rightarrow> Some (Slice xs))"

definition decodeUpdate :: "updatePatch \<Rightarrow> productUpdateRequest" where
  "decodeUpdate p =
     \<lparr>upd_Name = decodeString (upd_Name zeroUpdateRequest) (pat_Name p),
      upd_ImageClosedURL =
        decodeString (upd_ImageClosedURL zeroUpdateRequest) (pat_ImageClosedURL p),
      upd_ImageOpenURL =
        decodeString (upd_ImageOpenURL zeroUpdateRequest) (pat_ImageOpenURL p),
      upd_Description = decodeString (upd_Description zeroUpdateRequest) (pat_Description p),
      upd_Story = decodeString (upd_Story zeroUpdateRequest) (pat_Story p),
      upd_SourcingValues =
        decodeStrings (upd_SourcingValues zeroUpdateRequest) (pat_SourcingValues p),
      upd_Ingredients = decodeStrings (upd_Ingredients zeroUpdateRequest) (pat_Ingredients p),
      upd_AllergyInfo = decodeString (upd_AllergyInfo zeroUpdateRequest) (pat_AllergyInfo p),
      upd_DietaryCertification =
        decodeString (upd_DietaryCertification zeroUpdateRequest)
          (pat_DietaryCertification p)\<rparr>"

subsection \<open>Example collaborators and requests\<close>

text \<open>
  Concrete collaborators and requests at which the theorems below are instantiated. The
  example validator accepts one create body and two update bodies, reports a validation
  failure on the create body \<^verbatim>\<open>{}\<close>, which lacks every required field, and on any other
  body returns the error of the JSON decoder, which is no \<^verbatim>\<open>*ValidationError\<close>; its
  \<^verbatim>\<open>Message\<close> reads a field of its receiver.
\<close>

definition exampleCreateBody :: string where
  \<open>exampleCreateBody =
     ''{"productId":"646","name":"Vanilla","description":"Vanilla ice cream","sourcing_values":["Fairtrade"],"ingredients":[],"allergy_info":"milk","dietary_certifications":"Kosher"}''\<close>

definition exampleCreateRequest :: productCreateRequest where
  "exampleCreateRequest =
     \<lparr>cre_ProductID = ''646'', cre_Name = ''Vanilla'', cre_ImageClosedURL = [],
      cre_ImageOpenURL = [], cre_Description = ''Vanilla ice cream'', cre_Story = [],
      cre_SourcingValues = Some (Slice [''Fairtrade'']), cre_Ingredients = Some (Slice []),
      cre_AllergyInfo = ''milk'', cre_DietaryCertification = ''Kosher''\<rparr>"

definition exampleUpdateBody :: string where
  \<open>exampleUpdateBody = ''{"name":"X"}''\<close>

definition exampleUpdateBodyWithID :: string where
  \<open>exampleUpdateBodyWithID = ''{"productId":"999","name":"X"}''\<close>

definition examplePatch :: updatePatch where
  "examplePatch =
     \<lparr>pat_Name = Some ''X'', pat_ImageClosedURL = None, pat_ImageOpenURL = None,
      pat_Description = None, pat_Story = None, pat_SourcingValues = None,
      pat_Ingredients = None, pat_AllergyInfo = None, pat_DietaryCertification = None\<rparr>"

definition truncatedBody :: string where
  "truncatedBody = ''{''"

definition decoderError :: error_value where
  "decoderError = GoError Unrecognized ''unexpected EOF''"

definition requiredError :: error_value where
  "requiredError =
     GoError (ValidationError (ValidationFailure ''productId is a required field''))
       ''validation failed''"

definition exampleValidator :: validatorLib where
  "exampleValidator =
     \<lparr>DecodeAndValidateJSON = (\<lambda>b.
        if b = exampleCreateBody then (None, exampleCreateRequest)
        else if b = ''{}'' then (Some requiredError, zeroCreateRequest)
        else (Some decoderError, zeroCreateRequest)),
      ValidateJSON = (\<lambda>b.
        if b = exampleUpdateBody \<or> b = exampleUpdateBodyWithID
        then (None, decodeUpdate examplePatch)
        else (Some decoderError, zeroUpdateRequest)),
      nilMessage = None\<rparr>"

definition exampleProduct :: product where
  "exampleProduct = createToProduct exampleCreateRequest"

definition notFoundError :: error_value where
  "notFoundError = GoError ErrResourceNotFound ''Your requested Item is not found''"

definition exampleService :: productService where
  "exampleService =
     \<lparr>GetProduct = (\<lambda>productID.
        if productID = ''646'' then (exampleProduct, None)
        else (createToProduct zeroCreateRequest, Some notFoundError)),
      CreateProduct = (\<lambda>product. None),
      UpdateProduct = (\<lambda>productID product. None),
      DeleteProduct = (\<lambda>productID. None)\<rparr>"

definition exampleRequest :: "string \<Rightarrow> string \<Rightarrow> request" where
  "exampleRequest productID b = \<lparr>vars = [''product_id'' \<mapsto> productID], rbody = b\<rparr>"

text \<open>A product whose sourcing values point to the nil slice.\<close>

definition nilSliceProduct :: product where
  "nilSliceProduct = exampleProduct\<lparr>SourcingValues := Some NilSlice\<rparr>"

subsection \<open>Envelopes\<close>

text \<open>
  The documents that are the encoding of one of the two envelope structures,
  \<^verbatim>\<open>messageError\<close> and \<^verbatim>\<open>productSingleResponse\<close>.
\<close>

definition envelopes :: "json set" where
  "envelopes = range encodeMessageError \<union> range encodeSingleResponse"

section \<open>Properties\<close>

lemmas writer_defs =
  writeErrorMessage_def Write_def WriteHeader_def headerAdd_def headerSet_def newResponse_def
  statusCode_def

subsection \<open>The error-to-status table\<close>

text \<open>
  C1. \<^verbatim>\<open>getResponseStatus\<close> returns the table of section 4.4 of the specification:
  the nil error gives 200; the authentication-failure and the expired-credential
  sentinels give 401; the bad-parameter sentinel gives 400; the conflict sentinel gives
  200 and not 409; the not-found sentinel gives 404; every other error value (here a
  validation error or an unrecognised value, with any text) takes the default branch and
  gives 500. The function has a value on every error, and that value is one of the five
  codes of the table.
\<close>

theorem getResponseStatus_table:
  "getResponseStatus None = 200
   \<and> getResponseStatus (Some (GoError ErrAuthFail t)) = 401
   \<and> getResponseStatus (Some (GoError ErrExpiredToken t)) = 401
   \<and> getResponseStatus (Some (GoError ErrBadParamInput t)) = 400
   \<and> getResponseStatus (Some (GoError ErrConflict t)) = 200
   \<and> getResponseStatus (Some (GoError ErrConflict t)) \<noteq> 409
   \<and> getResponseStatus (Some (GoError ErrResourceNotFound t)) = 404
   \<and> getResponseStatus (Some (GoError (ValidationError v) t)) = 500
   \<and> getResponseStatus (Some (GoError Unrecognized t)) = 500
   \<and> getResponseStatus err \<in> {200, 400, 401, 404, 500}"
  by (simp add: getResponseStatus_def errIs_def)

subsection \<open>The identity of an update\<close>

text \<open>
  C2. For every update request, whatever its body and whatever the validator and the
  service do: the update mapper leaves \<open>ProductID\<close> empty; every call that the handler
  makes to the service is \<^verbatim>\<open>UpdateProduct\<close> with the \<^verbatim>\<open>product_id\<close> of the route, for a
  product whose \<open>ProductID\<close> is that same route value; and when the body passes
  validation that call is made, with the mapped request in which only the identity was
  overwritten.
\<close>

theorem update_identity_from_path:
  "ProductID (updateToProduct u) = []
   \<and> (\<forall>c \<in> set (calls (handleUpdateProduct V S w r)).
        \<exists>p. c = UpdateProductCall (param r ''product_id'') p
           \<and> ProductID p = param r ''product_id'')
   \<and> (fst (ValidateJSON V (rbody r)) = None \<longrightarrow>
        calls (handleUpdateProduct V S w r) =
          [UpdateProductCall (param r ''product_id'')
             ((updateToProduct (snd (ValidateJSON V (rbody r))))
                \<lparr>ProductID := param r ''product_id''\<rparr>)])"
  by (auto simp: handleUpdateProduct_def updateToProduct_def Let_def
           split: prod.splits option.splits)

theorem update_identity_from_path_witness:
  "fst (ValidateJSON exampleValidator exampleUpdateBodyWithID) = None
   \<and> calls (handleUpdateProduct exampleValidator exampleService newResponse
        (exampleRequest ''123'' exampleUpdateBodyWithID)) =
       [UpdateProductCall ''123''
          ((updateToProduct (decodeUpdate examplePatch))\<lparr>ProductID := ''123''\<rparr>)]
   \<and> ProductID ((updateToProduct (decodeUpdate examplePatch))\<lparr>ProductID := ''123''\<rparr>)
       = ''123''"
  using update_identity_from_path [of zeroUpdateRequest exampleValidator exampleService
      newResponse "exampleRequest ''123'' exampleUpdateBodyWithID"]
  by (simp add: exampleValidator_def exampleRequest_def param_def)

subsection \<open>Validation failures of a create request\<close>

text \<open>
  C3. For every create request on whose body \<^verbatim>\<open>DecodeAndValidateJSON\<close> reports a
  validation failure (an error that is a \<^verbatim>\<open>*ValidationError\<close>), the handler responds
  with status 400, written once, and with the error envelope that carries the message
  of that validation failure; it makes no call to the service and does not panic.
\<close>

theorem create_validation_failure:
  assumes "DecodeAndValidateJSON V (rbody r) = (Some e, c)"
    and "kind e = ValidationError v"
  shows "statusCode (resp (handleCreateProduct V S newResponse r)) = Some 400
    \<and> headerCalls (resp (handleCreateProduct V S newResponse r)) = [400]
    \<and> body (resp (handleCreateProduct V S newResponse r))
        = [encodeMessageError \<lparr>err_Message = message v\<rparr>]
    \<and> encodeMessageError \<lparr>err_Message = message v\<rparr>
        = JObject [(''message'', JString (message v))]
    \<and> calls (handleCreateProduct V S newResponse r) = []
    \<and> \<not> panicked (handleCreateProduct V S newResponse r)"
  using assms
  by (simp add: handleCreateProduct_def assertValidationError_def Message_def writer_defs
        encodeMessageError_def)

theorem create_validation_failure_witness:
  "DecodeAndValidateJSON exampleValidator (rbody (exampleRequest [] ''{}''))
     = (Some requiredError, zeroCreateRequest)
   \<and> kind requiredError
       = ValidationError (ValidationFailure ''productId is a required field'')
   \<and> statusCode (resp (handleCreateProduct exampleValidator exampleService newResponse
        (exampleRequest [] ''{}''))) = Some 400
   \<and> body (resp (handleCreateProduct exampleValidator exampleService newResponse
        (exampleRequest [] ''{}'')))
        = [JObject [(''message'', JString ''productId is a required field'')]]
   \<and> calls (handleCreateProduct exampleValidator exampleService newResponse
        (exampleRequest [] ''{}'')) = []"
proof -
  have d: "DecodeAndValidateJSON exampleValidator (rbody (exampleRequest [] ''{}''))
     = (Some requiredError, zeroCreateRequest)"
    by (simp add: exampleValidator_def exampleRequest_def exampleCreateBody_def)
  have k: "kind requiredError
     = ValidationError (ValidationFailure ''productId is a required field'')"
    by (simp add: requiredError_def)
  show ?thesis
    using d k create_validation_failure [OF d k, of exampleService]
    by (simp add: encodeMessageError_def)
qed

text \<open>The update handler treats a validation failure in the same way.\<close>

lemma update_validation_failure:
  assumes "ValidateJSON V (rbody r) = (Some e, u)"
    and "kind e = ValidationError v"
  shows "headerCalls (resp (handleUpdateProduct V S newResponse r)) = [400]
    \<and> body (resp (handleUpdateProduct V S newResponse r))
        = [encodeMessageError \<lparr>err_Message = message v\<rparr>]
    \<and> calls (handleUpdateProduct V S newResponse r) = []
    \<and> \<not> panicked (handleUpdateProduct V S newResponse r)"
  using assms
  by (simp add: handleUpdateProduct_def assertValidationError_def Message_def writer_defs)

subsection \<open>Decode errors that are not validation errors\<close>

text \<open>
  When the error returned by the validator is not a \<^verbatim>\<open>*ValidationError\<close>, the discarded
  second result of the type assertion leaves \<^verbatim>\<open>verr\<close> nil, and the handler calls
  \<^verbatim>\<open>Message\<close> on the nil pointer. A handler panics exactly then, and exactly when
  \<^verbatim>\<open>Message\<close> reads its receiver.
\<close>

lemma create_panics_iff:
  "panicked (handleCreateProduct V S w r) =
     (\<exists>e. fst (DecodeAndValidateJSON V (rbody r)) = Some e
         \<and> assertValidationError e = None \<and> nilMessage V = None)"
  by (auto simp: handleCreateProduct_def Message_def Let_def
        split: prod.splits option.splits)

lemma update_panics_iff:
  "panicked (handleUpdateProduct V S w r) =
     (\<exists>e. fst (ValidateJSON V (rbody r)) = Some e
         \<and> assertValidationError e = None \<and> nilMessage V = None)"
  by (auto simp: handleUpdateProduct_def Message_def Let_def
        split: prod.splits option.splits)

text \<open>
  C4. The claim is that a malformed body is always answered with status 400 and a
  message, and that the handler does not panic on a decode error that is not a
  validation error. Evaluated on the truncated body \<^verbatim>\<open>{\<close>, for which the example
  validator returns the decoder's error: the type assertion gives the nil pointer, both
  the create and the update handler panic, and neither a status nor a body has been
  written.
\<close>

theorem malformed_body_panics:
  "DecodeAndValidateJSON exampleValidator truncatedBody = (Some decoderError, zeroCreateRequest)
   \<and> ValidateJSON exampleValidator truncatedBody = (Some decoderError, zeroUpdateRequest)
   \<and> assertValidationError decoderError = None
   \<and> panicked (handleCreateProduct exampleValidator exampleService newResponse
        (exampleRequest [] truncatedBody))
   \<and> statusCode (resp (handleCreateProduct exampleValidator exampleService newResponse
        (exampleRequest [] truncatedBody))) = None
   \<and> body (resp (handleCreateProduct exampleValidator exampleService newResponse
        (exampleRequest [] truncatedBody))) = []
   \<and> panicked (handleUpdateProduct exampleValidator exampleService newResponse
        (exampleRequest ''123'' truncatedBody))
   \<and> statusCode (resp (handleUpdateProduct exampleValidator exampleService newResponse
        (exampleRequest ''123'' truncatedBody))) = None
   \<and> body (resp (handleUpdateProduct exampleValidator exampleService newResponse
        (exampleRequest ''123'' truncatedBody))) = []"
  by (simp add: handleCreateProduct_def handleUpdateProduct_def exampleValidator_def
        exampleRequest_def truncatedBody_def decoderError_def assertValidationError_def
        Message_def writer_defs exampleCreateBody_def exampleUpdateBody_def
        exampleUpdateBodyWithID_def)

subsection \<open>A product that is not found\<close>

text \<open>
  C5. For every get request for which \<^verbatim>\<open>GetProduct\<close> returns the not-found sentinel,
  the handler responds with status 404, written once, and with the error envelope whose
  message is the text of that error.
\<close>

theorem get_not_found:
  assumes "GetProduct S (param r ''product_id'') = (p, Some e)"
    and "kind e = ErrResourceNotFound"
  shows "statusCode (resp (handleGetProduct S newResponse r)) = Some 404
    \<and> headerCalls (resp (handleGetProduct S newResponse r)) = [404]
    \<and> body (resp (handleGetProduct S newResponse r))
        = [encodeMessageError \<lparr>err_Message = Error e\<rparr>]
    \<and> encodeMessageError \<lparr>err_Message = Error e\<rparr>
        = JObject [(''message'', JString (Error e))]"
  using assms
  by (simp add: handleGetProduct_def getResponseStatus_def errIs_def writer_defs
        encodeMessageError_def)

theorem get_not_found_witness:
  "GetProduct exampleService (param (exampleRequest ''123'' []) ''product_id'')
     = (createToProduct zeroCreateRequest, Some notFoundError)
   \<and> kind notFoundError = ErrResourceNotFound
   \<and> statusCode (resp (handleGetProduct exampleService newResponse (exampleRequest ''123'' [])))
       = Some 404
   \<and> body (resp (handleGetProduct exampleService newResponse (exampleRequest ''123'' [])))
       = [JObject [(''message'', JString ''Your requested Item is not found'')]]"
proof -
  have g: "GetProduct exampleService (param (exampleRequest ''123'' []) ''product_id'')
     = (createToProduct zeroCreateRequest, Some notFoundError)"
    by (simp add: exampleService_def exampleRequest_def param_def)
  have k: "kind notFoundError = ErrResourceNotFound"
    by (simp add: notFoundError_def)
  show ?thesis
    using g k get_not_found [OF g k] by (simp add: notFoundError_def encodeMessageError_def)
qed

subsection \<open>The response projection and its serialization\<close>

text \<open>
  C6, as stated, at a product whose \<open>SourcingValues\<close> is a non-nil pointer to the nil
  slice: the field is present and its sequence has length 0, yet the member
  \<^verbatim>\<open>sourcing_values\<close> of the envelope is neither left out nor an empty array; it is
  \<^verbatim>\<open>null\<close>.
\<close>

theorem nil_slice_counterexample:
  "SourcingValues nilSliceProduct = Some NilSlice
   \<and> len (NilSlice :: string slice) = 0
   \<and> map_of (membersResponseData (Data (newSingleResponse nilSliceProduct))) ''sourcing_values''
       = Some JNull
   \<and> map_of (membersResponseData (Data (newSingleResponse nilSliceProduct))) ''sourcing_values''
       \<noteq> Some (JArray [])
   \<and> map_of (membersResponseData (Data (newSingleResponse nilSliceProduct))) ''sourcing_values''
       \<noteq> None"
  by (simp add: nilSliceProduct_def exampleProduct_def createToProduct_def
        exampleCreateRequest_def newSingleResponse_def membersResponseData_def len_def)

text \<open>
  C6, amended. For every product: the projection copies the ten fields verbatim; the
  envelope is the object with the one member \<^verbatim>\<open>product\<close>; the member
  \<^verbatim>\<open>sourcing_values\<close> (and likewise \<^verbatim>\<open>ingredients\<close>) is left out exactly when the field
  is the nil pointer, and otherwise carries the encoding of the slice pointed to, which
  is the array of its strings for an allocated slice (the empty array for an empty one)
  and \<^verbatim>\<open>null\<close> for the nil slice; each of the eight string members carries its field.
\<close>

theorem newSingleResponse_sequences:
  "Data (newSingleResponse p) =
     \<lparr>res_ProductID = ProductID p, res_Name = Name p,
      res_ImageClosedURL = ImageClosedURL p, res_ImageOpenURL = ImageOpenURL p,
      res_Description = Description p, res_Story = Story p,
      res_SourcingValues = SourcingValues p, res_Ingredients = Ingredients p,
      res_AllergyInfo = AllergyInfo p, res_DietaryCertification = DietaryCertification p\<rparr>
   \<and> encodeSingleResponse (newSingleResponse p)
       = JObject [(''product'', JObject (membersResponseData (Data (newSingleResponse p))))]
   \<and> map_of (membersResponseData (Data (newSingleResponse p))) ''sourcing_values''
       = map_option encodeStrings (SourcingValues p)
   \<and> map_of (membersResponseData (Data (newSingleResponse p))) ''ingredients''
       = map_option encodeStrings (Ingredients p)
   \<and> (''sourcing_values'' \<in> fst ` set (membersResponseData (Data (newSingleResponse p))))
       = (SourcingValues p \<noteq> None)
   \<and> (''ingredients'' \<in> fst ` set (membersResponseData (Data (newSingleResponse p))))
       = (Ingredients p \<noteq> None)
   \<and> encodeStrings (Slice xs) = JArray (map JString xs)
   \<and> encodeStrings (Slice []) = JArray []
   \<and> encodeStrings NilSlice = JNull
   \<and> map (\<lambda>k. map_of (membersResponseData (Data (newSingleResponse p))) k)
        [''productId'', ''name'', ''image_closed'', ''image_open'', ''description'', ''story'',
         ''allergy_info'', ''dietary_certifications'']
       = map (\<lambda>s. Some (JString s))
        [ProductID p, Name p, ImageClosedURL p, ImageOpenURL p, Description p, Story p,
         AllergyInfo p, DietaryCertification p]"
  by (cases "SourcingValues p"; cases "Ingredients p")
     (simp_all add: newSingleResponse_def membersResponseData_def encodeSingleResponse_def)

text \<open>On success the get handler writes that envelope, once, under the implied status 200.\<close>

lemma get_success:
  assumes "GetProduct S (param r ''product_id'') = (p, None)"
  shows "statusCode (resp (handleGetProduct S newResponse r)) = Some 200
    \<and> body (resp (handleGetProduct S newResponse r))
        = [encodeSingleResponse (newSingleResponse p)]"
  using assms by (simp add: handleGetProduct_def writer_defs)

subsection \<open>The create mapper\<close>

text \<open>
  C7. For every create request, and so for every one that satisfies the field rules,
  each of the ten fields of the product made by \<^verbatim>\<open>createToProduct\<close> is the field of the
  same name of the request, unchanged: nothing is defaulted, and no two requests are
  mapped to the same product.
\<close>

theorem createToProduct_lossless:
  "ProductID (createToProduct r) = cre_ProductID r
   \<and> Name (createToProduct r) = cre_Name r
   \<and> ImageClosedURL (createToProduct r) = cre_ImageClosedURL r
   \<and> ImageOpenURL (createToProduct r) = cre_ImageOpenURL r
   \<and> Description (createToProduct r) = cre_Description r
   \<and> Story (createToProduct r) = cre_Story r
   \<and> SourcingValues (createToProduct r) = cre_SourcingValues r
   \<and> Ingredients (createToProduct r) = cre_Ingredients r
   \<and> AllergyInfo (createToProduct r) = cre_AllergyInfo r
   \<and> DietaryCertification (createToProduct r) = cre_DietaryCertification r
   \<and> inj createToProduct"
proof -
  have "inj createToProduct"
  proof (rule injI)
    fix x y :: productCreateRequest
    assume "createToProduct x = createToProduct y"
    then show "x = y"
      by (cases x; cases y) (simp add: createToProduct_def)
  qed
  then show ?thesis by (simp add: createToProduct_def)
qed

subsection \<open>A successful create\<close>

text \<open>
  C8. For every create request whose body decodes and validates (the validator returns
  the nil error) and for which \<^verbatim>\<open>CreateProduct\<close>, called on the mapped product, returns
  nil, the handler responds with status 201, written once, and writes no body.
\<close>

theorem create_success:
  assumes "DecodeAndValidateJSON V (rbody r) = (None, c)"
    and "CreateProduct S (createToProduct c) = None"
  shows "statusCode (resp (handleCreateProduct V S newResponse r)) = Some 201
    \<and> headerCalls (resp (handleCreateProduct V S newResponse r)) = [201]
    \<and> body (resp (handleCreateProduct V S newResponse r)) = []
    \<and> calls (handleCreateProduct V S newResponse r) = [CreateProductCall (createToProduct c)]
    \<and> \<not> panicked (handleCreateProduct V S newResponse r)"
  using assms
  by (simp add: handleCreateProduct_def writer_defs)

theorem create_success_witness:
  "DecodeAndValidateJSON exampleValidator (rbody (exampleRequest [] exampleCreateBody))
     = (None, exampleCreateRequest)
   \<and> CreateProduct exampleService (createToProduct exampleCreateRequest) = None
   \<and> statusCode (resp (handleCreateProduct exampleValidator exampleService newResponse
        (exampleRequest [] exampleCreateBody))) = Some 201
   \<and> body (resp (handleCreateProduct exampleValidator exampleService newResponse
        (exampleRequest [] exampleCreateBody))) = []"
proof -
  have d: "DecodeAndValidateJSON exampleValidator (rbody (exampleRequest [] exampleCreateBody))
     = (None, exampleCreateRequest)"
    by (simp add: exampleValidator_def exampleRequest_def)
  have s: "CreateProduct exampleService (createToProduct exampleCreateRequest) = None"
    by (simp add: exampleService_def)
  show ?thesis
    using d s create_success [OF d s] by simp
qed

subsection \<open>One write per request\<close>

text \<open>
  A get and a delete always return, having written exactly one status and at most one
  document, an envelope. A create and an update do the same whenever they return; when
  they panic they have written neither a status nor a body.
\<close>

lemma get_writes_once:
  "length (headerCalls (resp (handleGetProduct S newResponse r))) = 1
   \<and> length (body (resp (handleGetProduct S newResponse r))) = 1
   \<and> set (body (resp (handleGetProduct S newResponse r))) \<subseteq> envelopes
   \<and> \<not> panicked (handleGetProduct S newResponse r)"
  by (simp add: handleGetProduct_def writer_defs envelopes_def Let_def
        split: prod.splits option.splits)

lemma delete_writes_once:
  "length (headerCalls (resp (handleDeleteProduct S newResponse r))) = 1
   \<and> length (body (resp (handleDeleteProduct S newResponse r))) \<le> 1
   \<and> set (body (resp (handleDeleteProduct S newResponse r))) \<subseteq> envelopes
   \<and> \<not> panicked (handleDeleteProduct S newResponse r)"
  by (simp add: handleDeleteProduct_def writer_defs envelopes_def Let_def
        split: prod.splits option.splits)

lemma create_writes_once:
  "if panicked (handleCreateProduct V S newResponse r)
   then headerCalls (resp (handleCreateProduct V S newResponse r)) = []
      \<and> body (resp (handleCreateProduct V S newResponse r)) = []
   else length (headerCalls (resp (handleCreateProduct V S newResponse r))) = 1
      \<and> length (body (resp (handleCreateProduct V S newResponse r))) \<le> 1
      \<and> set (body (resp (handleCreateProduct V S newResponse r))) \<subseteq> envelopes"
  by (simp add: handleCreateProduct_def writer_defs envelopes_def Let_def
        split: prod.splits option.splits)

lemma update_writes_once:
  "if panicked (handleUpdateProduct V S newResponse r)
   then headerCalls (resp (handleUpdateProduct V S newResponse r)) = []
      \<and> body (resp (handleUpdateProduct V S newResponse r)) = []
   else length (headerCalls (resp (handleUpdateProduct V S newResponse r))) = 1
      \<and> length (body (resp (handleUpdateProduct V S newResponse r))) \<le> 1
      \<and> set (body (resp (handleUpdateProduct V S newResponse r))) \<subseteq> envelopes"
  by (simp add: handleUpdateProduct_def writer_defs envelopes_def Let_def
        split: prod.splits option.splits)

text \<open>
  C9. The claim is that every request handled by one of the four operations has exactly
  one status code written. Evaluated on the truncated body \<^verbatim>\<open>{\<close>, for which the example
  validator returns an error that is no \<^verbatim>\<open>*ValidationError\<close>: the create and the update
  handler end without a single \<^verbatim>\<open>WriteHeader\<close>, explicit or implied.
\<close>

theorem panic_writes_no_status:
  "headerCalls (resp (handleCreateProduct exampleValidator exampleService newResponse
        (exampleRequest [] truncatedBody))) = []
   \<and> length (headerCalls (resp (handleCreateProduct exampleValidator exampleService
        newResponse (exampleRequest [] truncatedBody)))) \<noteq> 1
   \<and> headerCalls (resp (handleUpdateProduct exampleValidator exampleService newResponse
        (exampleRequest ''123'' truncatedBody))) = []
   \<and> length (headerCalls (resp (handleUpdateProduct exampleValidator exampleService
        newResponse (exampleRequest ''123'' truncatedBody)))) \<noteq> 1"
  by (simp add: handleCreateProduct_def handleUpdateProduct_def exampleValidator_def
        exampleRequest_def truncatedBody_def decoderError_def assertValidationError_def
        Message_def writer_defs exampleCreateBody_def exampleUpdateBody_def
        exampleUpdateBodyWithID_def)

subsection \<open>Absent fields of an update\<close>

text \<open>
  C10. For every update body: each of the seven string fields of the product forwarded
  to the service is the string the body carries for it, and the empty string when the
  body omits it, so a body that omits such a field and the body that sets it to the
  empty string are mapped to the same product; the two sequence fields are the nil
  pointer when omitted and a pointer to an allocated slice when present, so an omitted
  sequence and a present empty one are mapped to different products.
\<close>

theorem update_collapses_absent_scalars:
  "Name (updateToProduct (decodeUpdate p)) = (case pat_Name p of None \<Rightarrow> [] | Some s \<Rightarrow> s)
   \<and> ImageClosedURL (updateToProduct (decodeUpdate p))
       = (case pat_ImageClosedURL p of None \<Rightarrow> [] | Some s \<Rightarrow> s)
   \<and> ImageOpenURL (updateToProduct (decodeUpdate p))
       = (case pat_ImageOpenURL p of None \<Rightarrow> [] | Some s \<Rightarrow> s)
   \<and> Description (updateToProduct (decodeUpdate p))
       = (case pat_Description p of None \<Rightarrow> [] | Some s \<Rightarrow> s)
   \<and> Story (updateToProduct (decodeUpdate p))
       = (case pat_Story p of None \<Rightarrow> [] | Some s \<Rightarrow> s)
   \<and> AllergyInfo (updateToProduct (decodeUpdate p))
       = (case pat_AllergyInfo p of None \<Rightarrow> [] | Some s \<Rightarrow> s)
   \<and> DietaryCertification (updateToProduct (decodeUpdate p))
       = (case pat_DietaryCertification p of None \<Rightarrow> [] | Some s \<Rightarrow> s)
   \<and> updateToProduct (decodeUpdate (p\<lparr>pat_Name := None\<rparr>))
       = updateToProduct (decodeUpdate (p\<lparr>pat_Name := Some []\<rparr>))
   \<and> updateToProduct (decodeUpdate (p\<lparr>pat_ImageClosedURL := None\<rparr>))
       = updateToProduct (decodeUpdate (p\<lparr>pat_ImageClosedURL := Some []\<rparr>))
   \<and> updateToProduct (decodeUpdate (p\<lparr>pat_ImageOpenURL := None\<rparr>))
       = updateToProduct (decodeUpdate (p\<lparr>pat_ImageOpenURL := Some []\<rparr>))
   \<and> updateToProduct (decodeUpdate (p\<lparr>pat_Description := None\<rparr>))
       = updateToProduct (decodeUpdate (p\<lparr>pat_Description := Some []\<rparr>))
   \<and> updateToProduct (decodeUpdate (p\<lparr>pat_Story := None\<rparr>))
       = updateToProduct (decodeUpdate (p\<lparr>pat_Story := Some []\<rparr>))
   \<and> updateToProduct (decodeUpdate (p\<lparr>pat_AllergyInfo := None\<rparr>))
       = updateToProduct (decodeUpdate (p\<lparr>pat_AllergyInfo := Some []\<rparr>))
   \<and> updateToProduct (decodeUpdate (p\<lparr>pat_DietaryCertification := None\<rparr>))
       = updateToProduct (decodeUpdate (p\<lparr>pat_DietaryCertification := Some []\<rparr>))
   \<and> SourcingValues (updateToProduct (decodeUpdate p)) = map_option Slice (pat_SourcingValues p)
   \<and> Ingredients (updateToProduct (decodeUpdate p)) = map_option Slice (pat_Ingredients p)
   \<and> updateToProduct (decodeUpdate (p\<lparr>pat_SourcingValues := None\<rparr>))
       \<noteq> updateToProduct (decodeUpdate (p\<lparr>pat_SourcingValues := Some []\<rparr>))
   \<and> updateToProduct (decodeUpdate (p\<lparr>pat_Ingredients := None\<rparr>))
       \<noteq> updateToProduct (decodeUpdate (p\<lparr>pat_Ingredients := Some []\<rparr>))"
  by (simp add: updateToProduct_def decodeUpdate_def decodeString_def decodeStrings_def
        zeroUpdateRequest_def split: option.splits)

text \<open>
  The mapper itself copies the nine fields of the decoded request, whatever they are.
\<close>

lemma updateToProduct_copies:
  "Name (updateToProduct u) = upd_Name u
   \<and> ImageClosedURL (updateToProduct u) = upd_ImageClosedURL u
   \<and> ImageOpenURL (updateToProduct u) = upd_ImageOpenURL u
   \<and> Description (updateToProduct u) = upd_Description u
   \<and> Story (updateToProduct u) = upd_Story u
   \<and> SourcingValues (updateToProduct u) = upd_SourcingValues u
   \<and> Ingredients (updateToProduct u) = upd_Ingredients u
   \<and> AllergyInfo (updateToProduct u) = upd_AllergyInfo u
   \<and> DietaryCertification (updateToProduct u) = upd_DietaryCertification u"
  by (simp add: updateToProduct_def)

end
